theory Spec2Isabelle
  imports Main "HOL-Library.Sublist"
begin

section \<open>Strings as the bot sees them\<close>

text \<open>
  The descriptors handled by \<^verbatim>\<open>barco_bot.py\<close> are Python strings. They are modelled as
  \<^typ>\<open>string\<close>, one \<^typ>\<open>char\<close> per character, restricted to the 8-bit range; the case
  conversions act on the ASCII letters, which is what \<^verbatim>\<open>str.upper\<close> and \<^verbatim>\<open>str.lower\<close> do on
  ASCII text. Python's \<^verbatim>\<open>p in s\<close> on strings is the contiguous-substring test \<^const>\<open>sublist\<close>.
\<close>

definition lower_letters :: string where
  "lower_letters = ''abcdefghijklmnopqrstuvwxyz''"

definition upper_letters :: string where
  "upper_letters = ''ABCDEFGHIJKLMNOPQRSTUVWXYZ''"

definition upper_char :: "char \<Rightarrow> char" where
  "upper_char c = (case map_of (zip lower_letters upper_letters) c of Some u \<Rightarrow> u | None \<Rightarrow> c)"

definition lower_char :: "char \<Rightarrow> char" where
  "lower_char c = (case map_of (zip upper_letters lower_letters) c of Some l \<Rightarrow> l | None \<Rightarrow> c)"

definition py_upper :: "string \<Rightarrow> string" where
  "py_upper s = map upper_char s"

definition py_lower :: "string \<Rightarrow> string" where
  "py_lower s = map lower_char s"

section \<open>Format detection: \<^verbatim>\<open>detect_film_format\<close>\<close>

text \<open>
  \<^verbatim>\<open>
  text_upper = film_text.upper()
  if 'SCOPE' in text_upper or '_S_' in text_upper or '-S-' in text_upper: return 'scope'
  if 'FLAT' in text_upper or '_F_' in text_upper or '-F-' in text_upper: return 'flat'
  return 'scope'
  \<close>
\<close>

definition detect_film_format :: "string \<Rightarrow> string" where
  "detect_film_format film_text =
     (let text_upper = py_upper film_text in
      if sublist ''SCOPE'' text_upper \<or> sublist ''_S_'' text_upper \<or> sublist ''-S-'' text_upper
      then ''scope''
      else if sublist ''FLAT'' text_upper \<or> sublist ''_F_'' text_upper \<or> sublist ''-F-'' text_upper
      then ''flat''
      else ''scope'')"

text \<open>
  The specification's wording, for comparison: a pattern occurs case-insensitively in a text
  when some contiguous piece of the text equals the pattern up to the case of its letters.
\<close>

definition ci_contains :: "string \<Rightarrow> string \<Rightarrow> bool" where
  "ci_contains pat text = (\<exists>s. sublist s text \<and> py_upper s = py_upper pat)"

section \<open>The time lookup of \<^verbatim>\<open>schedule_seances\<close>\<close>

text \<open>
  The first block of \<^verbatim>\<open>schedule_seances\<close> (the \<^verbatim>\<open>if minutes == "00" ... elif ... else\<close> chain)
  sets four variables; they are the fields of this record.
\<close>

record show_times =
  heure_soir :: int
  minutes_soir :: string
  heure_aprem :: int
  minutes_aprem :: string

definition time_lookup :: "string \<Rightarrow> show_times" where
  "time_lookup minutes =
     (if minutes = ''00'' then
        \<lparr>heure_soir = 18, minutes_soir = ''50'', heure_aprem = 12, minutes_aprem = ''50''\<rparr>
      else if minutes = ''15'' then
        \<lparr>heure_soir = 19, minutes_soir = ''05'', heure_aprem = 13, minutes_aprem = ''05''\<rparr>
      else if minutes = ''30'' then
        \<lparr>heure_soir = 19, minutes_soir = ''20'', heure_aprem = 13, minutes_aprem = ''20''\<rparr>
      else
        \<lparr>heure_soir = 18, minutes_soir = ''50'', heure_aprem = 12, minutes_aprem = ''50''\<rparr>)"

section \<open>Decimal numbers: \<^verbatim>\<open>int()\<close>, \<^verbatim>\<open>str()\<close> and \<^verbatim>\<open>f"{n:02d}"\<close>\<close>

text \<open>
  Python's \<^verbatim>\<open>int(s)\<close> on a string strips surrounding whitespace, accepts one optional sign and
  then decimal digits, where single underscores may stand between digits; anything else raises
  \<^verbatim>\<open>ValueError\<close>, which is the value \<^const>\<open>None\<close> here. \<^verbatim>\<open>str(n)\<close> is the decimal rendering
  with a leading minus sign for negative numbers, and \<^verbatim>\<open>f"{n:02d}"\<close> pads it with a zero to
  width two.
\<close>

definition digit_table :: "(char \<times> nat) list" where
  "digit_table = [(CHR ''0'', 0), (CHR ''1'', 1), (CHR ''2'', 2), (CHR ''3'', 3), (CHR ''4'', 4),
                  (CHR ''5'', 5), (CHR ''6'', 6), (CHR ''7'', 7), (CHR ''8'', 8), (CHR ''9'', 9)]"

definition is_digit :: "char \<Rightarrow> bool" where
  "is_digit c = (map_of digit_table c \<noteq> None)"

definition digit_val :: "char \<Rightarrow> nat" where
  "digit_val c = (case map_of digit_table c of Some v \<Rightarrow> v | None \<Rightarrow> 0)"

definition digit_char :: "nat \<Rightarrow> char" where
  "digit_char d = fst (digit_table ! d)"

definition is_space :: "char \<Rightarrow> bool" where
  "is_space c = (c \<in> set [CHR 0x09, CHR 0x0A, CHR 0x0B, CHR 0x0C, CHR 0x0D,
                             CHR 0x1C, CHR 0x1D, CHR 0x1E, CHR 0x1F, CHR '' ''])"

definition py_strip :: "string \<Rightarrow> string" where
  "py_strip s = rev (dropWhile is_space (rev (dropWhile is_space s)))"

function str_nat :: "nat \<Rightarrow> string" where
  "str_nat n = (if n < 10 then [digit_char n] else str_nat (n div 10) @ [digit_char (n mod 10)])"
  by pat_completeness auto
termination
  by (relation "measure id") auto

declare str_nat.simps [simp del]

definition py_str :: "int \<Rightarrow> string" where
  "py_str i = (if i < 0 then CHR ''-'' # str_nat (nat (- i)) else str_nat (nat i))"

definition format_02d :: "int \<Rightarrow> string" where
  "format_02d i = (if length (py_str i) < 2 then CHR ''0'' # py_str i else py_str i)"

definition digits_value :: "string \<Rightarrow> nat" where
  "digits_value ds = foldl (\<lambda>a c. 10 * a + digit_val c) 0 ds"

fun no_double_underscore :: "string \<Rightarrow> bool" where
  "no_double_underscore (a # b # cs) =
     ((a \<noteq> CHR ''_'' \<or> b \<noteq> CHR ''_'') \<and> no_double_underscore (b # cs))"
| "no_double_underscore cs = True"

definition int_literal :: "string \<Rightarrow> bool" where
  "int_literal body =
     (body \<noteq> [] \<and> list_all (\<lambda>c. is_digit c \<or> c = CHR ''_'') body
      \<and> is_digit (hd body) \<and> is_digit (last body) \<and> no_double_underscore body)"

definition py_int :: "string \<Rightarrow> int option" where
  "py_int s =
     (let t = py_strip s;
          signed = (t \<noteq> [] \<and> (hd t = CHR ''-'' \<or> hd t = CHR ''+''));
          body = (if signed then tl t else t);
          v = int (digits_value (filter is_digit body))
      in if int_literal body then Some (if signed \<and> hd t = CHR ''-'' then - v else v) else None)"

section \<open>Click offsets and the end marker: \<^verbatim>\<open>_add_seance_at_hour\<close>\<close>

text \<open>
  \<^verbatim>\<open>
  line_height = 67
  minutes_offset_map = {"00": -34, "05": -28, "10": -22, "15": -17, "20": -11, "30": 0, "50": 22}
  if minutes in minutes_offset_map:
      offset_y = minutes_offset_map[minutes]
  else:
      try: minutes_int = int(minutes)
      except: minutes_int = 0
      offset_y = int((minutes_int / 60) * line_height) - 34
  \<close>
  The float expression \<^verbatim>\<open>int((m / 60) * h)\<close> truncates towards zero. Its exact value
  \<open>m * h / 60\<close> with \<open>h = 67\<close> is either an integer or at least \<open>1/60\<close> away from one, so the
  rounding of double precision cannot move it across an integer for any minute count below
  \<open>10^12\<close> in absolute value; \<^term>\<open>int_of_scaled\<close> computes the truncation exactly.
\<close>

definition line_height :: int where
  "line_height = 67"

definition minutes_offset_map :: "(string \<times> int) list" where
  "minutes_offset_map =
     [(''00'', - 34), (''05'', - 28), (''10'', - 22), (''15'', - 17), (''20'', - 11),
      (''30'', 0), (''50'', 22)]"

definition int_of_scaled :: "int \<Rightarrow> int \<Rightarrow> int" where
  "int_of_scaled m h = (if 0 \<le> m * h then (m * h) div 60 else - ((- (m * h)) div 60))"

definition minutes_int_of :: "string \<Rightarrow> int" where
  "minutes_int_of minutes = (case py_int minutes of Some n \<Rightarrow> n | None \<Rightarrow> 0)"

definition offset_y :: "string \<Rightarrow> int" where
  "offset_y minutes =
     (case map_of minutes_offset_map minutes of
        Some v \<Rightarrow> v
      | None \<Rightarrow> int_of_scaled (minutes_int_of minutes) line_height - 34)"

text \<open>
  \<^verbatim>\<open>
  try: minutes_int = int(minutes)
  except: minutes_int = 0
  fermer_minutes = minutes_int + 10
  fermer_hour = hour + 2
  if fermer_minutes >= 60:
      fermer_minutes -= 60
      fermer_hour += 1
  fermer_minutes_str = f"{fermer_minutes:02d}"
  if fermer_minutes_str in minutes_offset_map:
      fermer_offset = minutes_offset_map[fermer_minutes_str]
  else:
      fermer_offset = int((fermer_minutes / 60) * line_height)
  \<close>
\<close>

record fermer_lampe =
  fermer_hour :: int
  fermer_minutes :: int
  fermer_offset :: int

definition fermer_lampe_of :: "int \<Rightarrow> string \<Rightarrow> fermer_lampe" where
  "fermer_lampe_of hour minutes =
     (let minutes_int = minutes_int_of minutes;
          fm0 = minutes_int + 10;
          fh0 = hour + 2;
          fm = (if fm0 \<ge> 60 then fm0 - 60 else fm0);
          fh = (if fm0 \<ge> 60 then fh0 + 1 else fh0);
          fermer_minutes_str = format_02d fm;
          off = (case map_of minutes_offset_map fermer_minutes_str of
                   Some v \<Rightarrow> v
                 | None \<Rightarrow> int_of_scaled fm line_height)
      in \<lparr>fermer_hour = fh, fermer_minutes = fm, fermer_offset = off\<rparr>)"

section \<open>Content selection: \<^verbatim>\<open>select_qfc_from_usb\<close>\<close>

text \<open>
  The four local predicates of \<^verbatim>\<open>select_qfc_from_usb\<close>, applied by the source to
  \<^verbatim>\<open>item.text.upper()\<close>.
\<close>

definition has_volume :: "string \<Rightarrow> bool" where
  "has_volume t =
     (sublist ''_51_'' t \<or> sublist ''-51-'' t \<or> sublist ''_51-'' t \<or> sublist ''-51_'' t \<or>
      sublist ''_71_'' t \<or> sublist ''-71-'' t \<or> sublist ''_71-'' t \<or> sublist ''-71_'' t)"

definition has_ccap_not_ocap :: "string \<Rightarrow> bool" where
  "has_ccap_not_ocap t = (sublist ''CCAP'' t \<and> \<not> sublist ''OCAP'' t)"

definition is_qfc :: "string \<Rightarrow> bool" where
  "is_qfc t = sublist ''QFC'' t"

definition is_fr :: "string \<Rightarrow> bool" where
  "is_fr t = (sublist ''_FR'' t \<or> sublist ''-FR'' t \<or> sublist ''FR-'' t \<or> sublist ''_FR_'' t)"

text \<open>
  A row of the USB listing as the driver shows it: its text (\<^const>\<open>None\<close> when reading
  \<^verbatim>\<open>item.text\<close> raises) and whether its \<^verbatim>\<open>div.btnIngest\<close> can be found and clicked. Each of
  the six loops has the shape
  \<^verbatim>\<open>
  for item in all_items:
      try:
          text = item.text.upper()
          if <criterion>(text):
              item.find_element(By.CSS_SELECTOR, "div.btnIngest").click()
              self.imported_film_text = item.text
              self.imported_film_format = self.detect_film_format(item.text)
              return True
      except:
          continue
  \<close>
  so a row whose button cannot be clicked is passed over.
\<close>

record usb_item =
  item_text :: "string option"
  btn_ingest :: bool

fun scan_items :: "(string \<Rightarrow> bool) \<Rightarrow> usb_item list \<Rightarrow> string option" where
  "scan_items crit [] = None"
| "scan_items crit (item # rest) =
     (case item_text item of
        None \<Rightarrow> scan_items crit rest
      | Some t \<Rightarrow> if crit (py_upper t) \<and> btn_ingest item then Some t else scan_items crit rest)"

record usb_page =
  page_loaded :: bool
  named_clickable :: "string \<Rightarrow> bool"
  all_items :: "usb_item list"

record usb_selection =
  selection_ok :: bool
  imported_film_text :: "string option"
  imported_film_format :: "string option"

definition nothing_selected :: usb_selection where
  "nothing_selected =
     \<lparr>selection_ok = False, imported_film_text = None, imported_film_format = None\<rparr>"

definition imported :: "string \<Rightarrow> usb_selection" where
  "imported t =
     \<lparr>selection_ok = True, imported_film_text = Some t,
      imported_film_format = Some (detect_film_format t)\<rparr>"

definition scan_tiers :: "usb_item list \<Rightarrow> string option" where
  "scan_tiers items =
     (case scan_items (\<lambda>t. is_qfc t \<and> has_ccap_not_ocap t \<and> has_volume t) items of
        Some t \<Rightarrow> Some t
      | None \<Rightarrow>
     (case scan_items (\<lambda>t. is_fr t \<and> has_ccap_not_ocap t \<and> has_volume t) items of
        Some t \<Rightarrow> Some t
      | None \<Rightarrow>
     (case scan_items (\<lambda>t. is_qfc t \<and> has_volume t) items of
        Some t \<Rightarrow> Some t
      | None \<Rightarrow>
     (case scan_items (\<lambda>t. is_fr t \<and> has_volume t) items of
        Some t \<Rightarrow> Some t
      | None \<Rightarrow>
     (case scan_items is_qfc items of
        Some t \<Rightarrow> Some t
      | None \<Rightarrow> scan_items is_fr items)))))"

text \<open>
  \<^verbatim>\<open>if film_name:\<close> holds for a name that is given and not empty; then the named row is
  waited for and clicked, and a timeout ends in the outer \<^verbatim>\<open>except\<close>. Otherwise the six
  loops run, and \<^verbatim>\<open>return False\<close> follows the last one.
\<close>

definition select_qfc_from_usb :: "usb_page \<Rightarrow> string option \<Rightarrow> usb_selection" where
  "select_qfc_from_usb page film_name =
     (let name = (case film_name of Some n \<Rightarrow> n | None \<Rightarrow> []) in
      if \<not> page_loaded page then nothing_selected
      else if name \<noteq> [] then
        (if named_clickable page name
         then \<lparr>selection_ok = True, imported_film_text = None,
               imported_film_format = Some (detect_film_format name)\<rparr>
         else nothing_selected)
      else
        (case scan_tiers (all_items page) of
           Some t \<Rightarrow> imported t
         | None \<Rightarrow> nothing_selected))"

text \<open>
  The specification's wording, for comparison: six tiers over descriptors; the selector returns
  the first descriptor, in list order, of the first tier that some descriptor satisfies. A
  descriptor is handed to the source as a row that can be read and ingested.
\<close>

definition tier :: "nat \<Rightarrow> string \<Rightarrow> bool" where
  "tier n d =
     (let t = py_upper d in
      if n = 1 then is_qfc t \<and> has_ccap_not_ocap t \<and> has_volume t
      else if n = 2 then is_fr t \<and> has_ccap_not_ocap t \<and> has_volume t
      else if n = 3 then is_qfc t \<and> has_volume t
      else if n = 4 then is_fr t \<and> has_volume t
      else if n = 5 then is_qfc t
      else if n = 6 then is_fr t
      else False)"

definition tier_select :: "string list \<Rightarrow> string option" where
  "tier_select ds =
     (case filter (\<lambda>n. list_ex (tier n) ds) [1, 2, 3, 4, 5, 6] of
        [] \<Rightarrow> None
      | n # _ \<Rightarrow> List.find (tier n) ds)"

definition listed :: "string \<Rightarrow> usb_item" where
  "listed d = \<lparr>item_text = Some d, btn_ingest = True\<rparr>"

definition usb_listing :: "string list \<Rightarrow> usb_page" where
  "usb_listing ds =
     \<lparr>page_loaded = True, named_clickable = (\<lambda>_. False), all_items = map listed ds\<rparr>"

section \<open>Dates: \<^verbatim>\<open>split('/')\<close> and \<^verbatim>\<open>datetime\<close>\<close>

text \<open>
  \<^verbatim>\<open>s.split(sep)\<close> on one separator character always returns at least one piece.
\<close>

fun split_on :: "char \<Rightarrow> string \<Rightarrow> string list" where
  "split_on sep [] = [[]]"
| "split_on sep (c # cs) =
     (if c = sep then [] # split_on sep cs
      else (case split_on sep cs of p # ps \<Rightarrow> (c # p) # ps | [] \<Rightarrow> [[c]]))"

record date =
  year :: int
  month :: int
  day :: int

definition is_leap :: "int \<Rightarrow> bool" where
  "is_leap y = (if y mod 400 = 0 then True else if y mod 100 = 0 then False else y mod 4 = 0)"

definition days_in_month :: "int \<Rightarrow> int \<Rightarrow> int" where
  "days_in_month y m =
     (if m = 2 then (if is_leap y then 29 else 28)
      else if m = 4 \<or> m = 6 \<or> m = 9 \<or> m = 11 then 30
      else 31)"

text \<open>
  The constructor \<^verbatim>\<open>datetime(year, month, day)\<close> raises \<^verbatim>\<open>ValueError\<close> outside the calendar;
  datetimes at midnight compare as their dates do.
\<close>

definition datetime :: "int \<Rightarrow> int \<Rightarrow> int \<Rightarrow> date option" where
  "datetime y m d =
     (if 1 \<le> y \<and> y \<le> 9999 \<and> 1 \<le> m \<and> m \<le> 12 \<and> 1 \<le> d \<and> d \<le> days_in_month y m
      then Some \<lparr>year = y, month = m, day = d\<rparr> else None)"

definition date_less :: "date \<Rightarrow> date \<Rightarrow> bool" where
  "date_less a b =
     (year a < year b \<or> (year a = year b \<and> (month a < month b \<or> (month a = month b \<and> day a < day b))))"

text \<open>
  \<^verbatim>\<open>
  parts = date_text.split('/')
  jour_dt = datetime(int(parts[2]), int(parts[1]), int(parts[0]))
  \<close>
  Any of \<^verbatim>\<open>IndexError\<close> and \<^verbatim>\<open>ValueError\<close> is the value \<^const>\<open>None\<close>.
\<close>

definition parse_date :: "string \<Rightarrow> date option" where
  "parse_date s =
     (let parts = split_on CHR ''/'' s in
      if length parts < 3 then None
      else (case py_int (parts ! 2) of
              None \<Rightarrow> None
            | Some y \<Rightarrow>
          (case py_int (parts ! 1) of
              None \<Rightarrow> None
            | Some m \<Rightarrow>
          (case py_int (parts ! 0) of
              None \<Rightarrow> None
            | Some d \<Rightarrow> datetime y m d))))"

text \<open>
  \<^verbatim>\<open>main.py\<close> computes the end of the week as \<^verbatim>\<open>date_debut_dt + timedelta(days=6)\<close>; adding days
  to a date walks the calendar.
\<close>

definition next_day :: "date \<Rightarrow> date" where
  "next_day a =
     (if day a < days_in_month (year a) (month a) then a\<lparr>day := day a + 1\<rparr>
      else if month a < 12 then a\<lparr>month := month a + 1, day := 1\<rparr>
      else a\<lparr>year := year a + 1, month := 1, day := 1\<rparr>)"

definition add_days :: "date \<Rightarrow> nat \<Rightarrow> date" where
  "add_days a n = (next_day ^^ n) a"

section \<open>The bulk copy: \<^verbatim>\<open>_copy_vendredi_to_days\<close>\<close>

text \<open>
  What the driver shows to \<^verbatim>\<open>_copy_vendredi_to_days\<close>: the number of day headers, whether the
  dropdown of the Friday header, its \<^verbatim>\<open>a.copyDay\<close> link and the \<^verbatim>\<open>#dateTimeModal\<close> react, the
  \<^verbatim>\<open>td.day\<close> cells of the modal with their class attribute and text, and whether the
  confirmation button becomes clickable.
\<close>

record cal_cell =
  cell_class :: string
  cell_text :: string

record copy_modal =
  n_day_headers :: nat
  dropdown_opens :: bool
  copy_day_clicks :: bool
  modal_opens :: bool
  day_cells :: "cal_cell list"
  ok_clickable :: bool

datatype copy_error = CPY001 | CPY002 | CPY003 | CPY004 | CPY005 | CPY006

text \<open>
  \<^verbatim>\<open>
  for cell in day_cells:
      cell_classes = cell.get_attribute("class") or ""
      cell_text = cell.text.strip()
      if 'old' in cell_classes or 'new' in cell_classes or 'notSelectable' in cell_classes
         or 'source' in cell_classes: continue
      if cell_text == str(jour_num):
          cell.click(); jours_trouves.append(jour_num); break
  \<close>
\<close>

definition cell_excluded :: "cal_cell \<Rightarrow> bool" where
  "cell_excluded cell =
     (sublist ''old'' (cell_class cell) \<or> sublist ''new'' (cell_class cell)
      \<or> sublist ''notSelectable'' (cell_class cell) \<or> sublist ''source'' (cell_class cell))"

definition cell_matches :: "int \<Rightarrow> cal_cell \<Rightarrow> bool" where
  "cell_matches jour_num cell =
     (if cell_excluded cell then False else py_strip (cell_text cell) = py_str jour_num)"

definition jours_trouves :: "cal_cell list \<Rightarrow> int list \<Rightarrow> int list" where
  "jours_trouves cells target_jours_nums =
     filter (\<lambda>jour_num. list_ex (cell_matches jour_num) cells) target_jours_nums"

definition copy_vendredi_to_days :: "copy_modal \<Rightarrow> nat \<Rightarrow> int list \<Rightarrow> copy_error + int list" where
  "copy_vendredi_to_days modal vendredi_index target_jours_nums =
     (if vendredi_index \<ge> n_day_headers modal then Inl CPY001
      else if \<not> dropdown_opens modal then Inl CPY002
      else if \<not> copy_day_clicks modal then Inl CPY003
      else if \<not> modal_opens modal then Inl CPY004
      else if jours_trouves (day_cells modal) target_jours_nums = [] then Inl CPY005
      else if \<not> ok_clickable modal then Inl CPY006
      else Inr (jours_trouves (day_cells modal) target_jours_nums))"

text \<open>
  The block of \<^verbatim>\<open>schedule_seances\<close> that computes the targets of the copy:
  \<^verbatim>\<open>
  if date_debut_dt:
      vendredi_jour = int(date_debut.split('/')[0])
      jours_nums = [vendredi_jour + 1, vendredi_jour + 2, vendredi_jour + 5, vendredi_jour + 6]
  else:
      jours_nums = [j['jour_num'] for j in jours_a_copier]
  \<close>
  It runs after \<^verbatim>\<open>date_debut\<close> has been parsed, so \<^verbatim>\<open>int\<close> cannot raise in the first branch.
\<close>

definition jours_nums_of :: "date option \<Rightarrow> string \<Rightarrow> int list \<Rightarrow> int list" where
  "jours_nums_of date_debut_dt date_debut jours_a_copier =
     (case date_debut_dt of
        Some _ \<Rightarrow>
          (let vendredi_jour = (case py_int (hd (split_on CHR ''/'' date_debut)) of
                                  Some v \<Rightarrow> v | None \<Rightarrow> 0)
           in [vendredi_jour + 1, vendredi_jour + 2, vendredi_jour + 5, vendredi_jour + 6])
      | None \<Rightarrow> jours_a_copier)"

text \<open>A month's page of the copy calendar: one selectable cell for each day of the month.\<close>

definition month_cells :: "int \<Rightarrow> cal_cell list" where
  "month_cells n = map (\<lambda>k. \<lparr>cell_class = ''day'', cell_text = py_str k\<rparr>) [1..n]"

definition month_modal :: "int \<Rightarrow> copy_modal" where
  "month_modal n =
     \<lparr>n_day_headers = 7, dropdown_opens = True, copy_day_clicks = True, modal_opens = True,
      day_cells = month_cells n, ok_clickable = True\<rparr>"

text \<open>
  A calendar page of a month of \<open>n\<close> days: every cell is one of the excluded kinds (days of the
  neighbouring months, the source day) or shows a day number between 1 and \<open>n\<close>.
\<close>

definition month_calendar :: "int \<Rightarrow> cal_cell list \<Rightarrow> bool" where
  "month_calendar n cells =
     list_all (\<lambda>c. cell_excluded c \<or> list_ex (\<lambda>k. py_strip (cell_text c) = py_str k) [1..n]) cells"

section \<open>Title extraction: \<^verbatim>\<open>extract_film_name\<close>\<close>

text \<open>
  \<^verbatim>\<open>str.title()\<close> upper-cases a cased character that does not follow a cased character and
  lower-cases one that does; \<^verbatim>\<open>re.split\<close> on a character class and \<^verbatim>\<open>str.split()\<close> on
  whitespace cut at every character of the class, the latter dropping the empty pieces.
\<close>

definition is_cased :: "char \<Rightarrow> bool" where
  "is_cased c = (c \<in> set lower_letters \<or> c \<in> set upper_letters)"

fun title_from :: "bool \<Rightarrow> string \<Rightarrow> string" where
  "title_from previous_is_cased [] = []"
| "title_from previous_is_cased (c # cs) =
     (if previous_is_cased then lower_char c else upper_char c) # title_from (is_cased c) cs"

definition py_title :: "string \<Rightarrow> string" where
  "py_title s = title_from False s"

fun split_where :: "(char \<Rightarrow> bool) \<Rightarrow> string \<Rightarrow> string list" where
  "split_where p [] = [[]]"
| "split_where p (c # cs) =
     (if p c then [] # split_where p cs
      else (case split_where p cs of q # qs \<Rightarrow> (c # q) # qs | [] \<Rightarrow> [[c]]))"

definition py_words :: "string \<Rightarrow> string list" where
  "py_words s = filter (\<lambda>w. w \<noteq> []) (split_where is_space s)"

definition is_alnum :: "char \<Rightarrow> bool" where
  "is_alnum c = (c \<in> set lower_letters \<or> c \<in> set upper_letters \<or> is_digit c)"

definition is_sep :: "char \<Rightarrow> bool" where
  "is_sep c = (c = CHR ''_'' \<or> c = CHR ''-'')"

text \<open>
  Each entry of \<^verbatim>\<open>patterns_stop\<close> is a regular expression that starts with \<^verbatim>\<open>[_-]\<close>, is matched
  without regard to case, and (but for \<^verbatim>\<open>[_-]OV$\<close>) ends with \<^verbatim>\<open>.*$\<close>. On a text without a
  newline \<^verbatim>\<open>re.sub(pattern, '', s)\<close> therefore removes everything from the leftmost position
  where the head of the pattern matches. A head is a test on the rest of the text from a
  position on: a separator followed by a literal (\<^verbatim>\<open>[_-]TLR\<close>), by digits and a separator
  (\<^verbatim>\<open>[_-]\d+[_-]\<close>), by S or F and a separator, by \<^verbatim>\<open>OV\<close> and the end, by eight digits, or by
  digits and K.
\<close>

fun cut_at :: "(string \<Rightarrow> bool) \<Rightarrow> string \<Rightarrow> string" where
  "cut_at head [] = []"
| "cut_at head (c # cs) = (if head (c # cs) then [] else c # cut_at head cs)"

definition sep_then :: "(string \<Rightarrow> bool) \<Rightarrow> string \<Rightarrow> bool" where
  "sep_then follows rest = (case rest of [] \<Rightarrow> False | c # r \<Rightarrow> is_sep c \<and> follows r)"

definition literal :: "string \<Rightarrow> string \<Rightarrow> bool" where
  "literal lit r = (py_upper (take (length lit) r) = lit)"

definition digits_then :: "(string \<Rightarrow> bool) \<Rightarrow> string \<Rightarrow> bool" where
  "digits_then follows r = (takeWhile is_digit r \<noteq> [] \<and> follows (dropWhile is_digit r))"

definition starts_with :: "(char \<Rightarrow> bool) \<Rightarrow> string \<Rightarrow> bool" where
  "starts_with p r = (case r of [] \<Rightarrow> False | c # _ \<Rightarrow> p c)"

definition patterns_stop :: "(string \<Rightarrow> bool) list" where
  "patterns_stop =
     [sep_then (literal ''TLR''),
      sep_then (literal ''FTR''),
      sep_then (literal ''TSR''),
      sep_then (literal ''QFC''),
      sep_then (literal ''DCP''),
      sep_then (digits_then (starts_with is_sep)),
      sep_then (\<lambda>r. literal ''S'' (take 1 r) \<and> starts_with is_sep (drop 1 r)
                   \<or> literal ''F'' (take 1 r) \<and> starts_with is_sep (drop 1 r)),
      sep_then (literal ''SMPTE''),
      sep_then (literal ''CCAP''),
      sep_then (literal ''OCAP''),
      sep_then (\<lambda>r. py_upper r = ''OV''),
      sep_then (\<lambda>r. length (takeWhile is_digit (take 8 r)) = 8),
      sep_then (digits_then (literal ''K''))]"

text \<open>
  \<^verbatim>\<open>
  text = qfc_text.strip()
  if '\n' in text: text = text.split('\n')[0]
  match = re.match(r'^([A-Za-z0-9]+)', text)
  if match:
      film_name = match.group(1)
      if len(film_name) >= 3: return film_name.title()
  film_name = text
  for pattern in patterns_stop:
      film_name = re.sub(pattern, '', film_name, flags=re.IGNORECASE)
  first_segment = re.split(r'[_-]', film_name)[0]
  if first_segment and len(first_segment) >= 2: return first_segment.title()
  film_name = film_name.replace('_', ' ').replace('-', ' ').strip()
  if film_name:
      first_word = film_name.split()[0] if film_name.split() else film_name
      return first_word.title()
  return "Film"
  \<close>
\<close>

definition strip_codes :: "string \<Rightarrow> string" where
  "strip_codes s = foldl (\<lambda>film_name pattern. cut_at pattern film_name) s patterns_stop"

definition seps_to_spaces :: "string \<Rightarrow> string" where
  "seps_to_spaces s = py_strip (map (\<lambda>c. if is_sep c then CHR '' '' else c) s)"

definition extract_film_name :: "string \<Rightarrow> string" where
  "extract_film_name qfc_text =
     (let stripped = py_strip qfc_text;
          line = hd (split_where (\<lambda>c. c = CHR 0x0A) stripped);
          matched = takeWhile is_alnum line
      in if length matched \<ge> 3 then py_title matched
         else
           (let film_name = strip_codes line;
                first_segment = hd (split_where is_sep film_name)
            in if first_segment \<noteq> [] \<and> length first_segment \<ge> 2 then py_title first_segment
               else
                 (let cleaned = seps_to_spaces film_name
                  in if cleaned \<noteq> [] then
                       py_title (case py_words cleaned of w # _ \<Rightarrow> w | [] \<Rightarrow> cleaned)
                     else ''Film'')))"

text \<open>
  The specification's wording, for comparison: work on the first line of the input; return the
  title-cased leading run of letters and digits when it has at least three characters;
  otherwise strip the technical codes, split the remainder on underscore and hyphen and take the
  first non-empty segment, returned title-cased when it has at least two characters; otherwise
  replace the separators with spaces and return the title-cased first word, or \<open>Film\<close> when
  nothing remains.
\<close>

definition extract_as_claimed :: "string \<Rightarrow> string" where
  "extract_as_claimed qfc_text =
     (let line = hd (split_where (\<lambda>c. c = CHR 0x0A) qfc_text);
          run = takeWhile is_alnum line;
          remainder = strip_codes line;
          segments = filter (\<lambda>s. s \<noteq> []) (split_where is_sep remainder);
          fallback = (case py_words (seps_to_spaces remainder) of
                        w # _ \<Rightarrow> py_title w
                      | [] \<Rightarrow> ''Film'')
      in if length run \<ge> 3 then py_title run
         else (case segments of
                 seg # _ \<Rightarrow> if length seg \<ge> 2 then py_title seg else fallback
               | [] \<Rightarrow> fallback))"

section \<open>The weekly schedule: \<^verbatim>\<open>schedule_seances\<close>\<close>

text \<open>
  What the driver shows to \<^verbatim>\<open>schedule_seances\<close>: whether the scheduler page loads; the day
  headers (the texts of \<^verbatim>\<open>p.day\<close> and \<^verbatim>\<open>p.date\<close>, \<^const>\<open>None\<close> when the element is missing
  and \<^verbatim>\<open>find_element\<close> raises) and the number of day views, once before the Friday is
  programmed and once after the copy; the outcome of \<^verbatim>\<open>_add_seance_at_hour\<close> on a day view;
  and the copy modal. \<^verbatim>\<open>_navigate_to_date\<close> catches its own exceptions, so the first headers
  are the ones shown after it.
\<close>

record day_header =
  day_p :: "string option"
  date_p :: "string option"

record scheduler_page =
  scheduler_loads :: bool
  headers_before :: "day_header list"
  views_before :: nat
  headers_after :: "day_header list"
  views_after :: nat
  add_seance_ok :: "nat \<Rightarrow> int \<Rightarrow> string \<Rightarrow> bool"
  copy_calendar :: copy_modal

text \<open>
  What the function does to the console, in order: a show placed on a day view at an hour and
  minutes, the bulk copy from a header to day numbers, and a line written to the error log.
\<close>

datatype sch_event =
    AddSeance nat int string
  | CopyDays nat "int list"
  | Logged string

fun is_attempt :: "sch_event \<Rightarrow> bool" where
  "is_attempt (AddSeance _ _ _) = True"
| "is_attempt (CopyDays _ _) = True"
| "is_attempt (Logged _) = False"

definition attempts :: "sch_event list \<Rightarrow> sch_event list" where
  "attempts events = filter is_attempt events"

definition any_in :: "string list \<Rightarrow> string \<Rightarrow> bool" where
  "any_in names day_name = list_ex (\<lambda>j. sublist j day_name) names"

definition vendredi_names :: "string list" where
  "vendredi_names = [''vendredi'', ''friday'', ''ven'']"

definition weekend_names :: "string list" where
  "weekend_names = [''samedi'', ''saturday'', ''sam'', ''dimanche'', ''sunday'', ''dim'']"

definition copy_day_names :: "string list" where
  "copy_day_names = weekend_names @ [''mercredi'', ''wednesday'', ''mer'', ''jeudi'', ''thursday'', ''jeu'']"

text \<open>
  \<^verbatim>\<open>
  day_name = header.find_element(By.CSS_SELECTOR, "p.day").text.lower().strip()
  date_text = header.find_element(By.CSS_SELECTOR, "p.date").text.strip()
  \<close>
\<close>

definition header_texts :: "day_header \<Rightarrow> (string \<times> string) option" where
  "header_texts header =
     (case day_p header of
        None \<Rightarrow> None
      | Some d \<Rightarrow> (case date_p header of
                     None \<Rightarrow> None
                   | Some t \<Rightarrow> Some (py_strip (py_lower d), py_strip t)))"

text \<open>
  The first loop: the first header named as a Friday, and, when a start date is given, dated
  on or after it; a header whose date cannot be parsed is passed over by the \<^verbatim>\<open>except\<close>.
\<close>

fun find_vendredi :: "date option \<Rightarrow> nat \<Rightarrow> day_header list \<Rightarrow> nat option" where
  "find_vendredi date_debut_dt index [] = None"
| "find_vendredi date_debut_dt index (header # rest) =
     (case header_texts header of
        None \<Rightarrow> find_vendredi date_debut_dt (Suc index) rest
      | Some (day_name, date_text) \<Rightarrow>
          if any_in vendredi_names day_name then
            (case date_debut_dt of
               None \<Rightarrow> Some index
             | Some debut \<Rightarrow>
                 (case parse_date date_text of
                    None \<Rightarrow> find_vendredi date_debut_dt (Suc index) rest
                  | Some jour_dt \<Rightarrow>
                      if date_less jour_dt debut
                      then find_vendredi date_debut_dt (Suc index) rest
                      else Some index))
          else find_vendredi date_debut_dt (Suc index) rest)"

text \<open>
  \<^verbatim>\<open>if date_debut_dt and date_fin_dt: ... if jour_dt < date_debut_dt or jour_dt > date_fin_dt: continue\<close>;
  the result is \<^const>\<open>None\<close> when parsing the header's date raises.
\<close>

definition in_bounds :: "date option \<Rightarrow> date option \<Rightarrow> string \<Rightarrow> bool option" where
  "in_bounds date_debut_dt date_fin_dt date_text =
     (case date_debut_dt of
        None \<Rightarrow> Some True
      | Some debut \<Rightarrow>
          (case date_fin_dt of
             None \<Rightarrow> Some True
           | Some fin \<Rightarrow>
               (case parse_date date_text of
                  None \<Rightarrow> None
                | Some jour_dt \<Rightarrow>
                    Some (if date_less jour_dt debut then False
                          else if date_less fin jour_dt then False else True))))"

text \<open>The second loop collects the day numbers of the Saturday, Sunday, Wednesday and Thursday headers.\<close>

fun jours_a_copier :: "date option \<Rightarrow> date option \<Rightarrow> nat \<Rightarrow> nat \<Rightarrow> day_header list \<Rightarrow> int list" where
  "jours_a_copier dd df vendredi_index index [] = []"
| "jours_a_copier dd df vendredi_index index (header # rest) =
     (if index = vendredi_index then jours_a_copier dd df vendredi_index (Suc index) rest
      else (case header_texts header of
              None \<Rightarrow> jours_a_copier dd df vendredi_index (Suc index) rest
            | Some (day_name, date_text) \<Rightarrow>
                if any_in copy_day_names day_name then
                  (case in_bounds dd df date_text of
                     Some True \<Rightarrow>
                       (case py_int (hd (split_on CHR ''/'' date_text)) of
                          None \<Rightarrow> jours_a_copier dd df vendredi_index (Suc index) rest
                        | Some jour_num \<Rightarrow>
                            jour_num # jours_a_copier dd df vendredi_index (Suc index) rest)
                   | _ \<Rightarrow> jours_a_copier dd df vendredi_index (Suc index) rest)
                else jours_a_copier dd df vendredi_index (Suc index) rest))"

text \<open>
  The third loop adds the afternoon show on the Saturday and Sunday headers of the refreshed
  page; a failed placement is logged (SCH-006) and the loop goes on.
\<close>

fun add_matinees ::
  "scheduler_page \<Rightarrow> date option \<Rightarrow> date option \<Rightarrow> int \<Rightarrow> string \<Rightarrow> nat \<Rightarrow> day_header list
     \<Rightarrow> sch_event list" where
  "add_matinees page dd df hour minutes index [] = []"
| "add_matinees page dd df hour minutes index (header # rest) =
     (if index \<ge> views_after page then add_matinees page dd df hour minutes (Suc index) rest
      else (case header_texts header of
              None \<Rightarrow> Logged ''SCH'' # add_matinees page dd df hour minutes (Suc index) rest
            | Some (day_name, date_text) \<Rightarrow>
                if any_in weekend_names day_name then
                  (case in_bounds dd df date_text of
                     None \<Rightarrow> Logged ''SCH'' # add_matinees page dd df hour minutes (Suc index) rest
                   | Some False \<Rightarrow> add_matinees page dd df hour minutes (Suc index) rest
                   | Some True \<Rightarrow>
                       AddSeance index hour minutes
                       # (if add_seance_ok page index hour minutes then [] else [Logged ''SCH-006''])
                       @ add_matinees page dd df hour minutes (Suc index) rest)
                else add_matinees page dd df hour minutes (Suc index) rest))"

text \<open>
  \<^verbatim>\<open>if date_debut:\<close> holds for a string that is given and not empty. A date that does not parse
  ends the function with SCH-002.
\<close>

definition parse_bound :: "string option \<Rightarrow> (date option) option" where
  "parse_bound date_text =
     (case date_text of
        None \<Rightarrow> Some None
      | Some s \<Rightarrow> if s = [] then Some None
                  else (case parse_date s of None \<Rightarrow> None | Some d \<Rightarrow> Some (Some d)))"

definition schedule_seances ::
  "scheduler_page \<Rightarrow> string \<Rightarrow> string option \<Rightarrow> string option \<Rightarrow> bool \<times> sch_event list" where
  "schedule_seances page minutes date_debut date_fin =
     (if \<not> scheduler_loads page then (False, [Logged ''SCH-007''])
      else
        (let times = time_lookup minutes in
         case parse_bound date_debut of
           None \<Rightarrow> (False, [Logged ''SCH-002''])
         | Some date_debut_dt \<Rightarrow>
         (case parse_bound date_fin of
           None \<Rightarrow> (False, [Logged ''SCH-002''])
         | Some date_fin_dt \<Rightarrow>
         (case find_vendredi date_debut_dt 0 (headers_before page) of
           None \<Rightarrow> (False, [Logged ''SCH-003''])
         | Some vendredi_index \<Rightarrow>
             if vendredi_index \<ge> views_before page then (False, [Logged ''SCH-007''])
             else
               (let soir =
                      AddSeance vendredi_index (heure_soir times) (minutes_soir times)
                      # (if add_seance_ok page vendredi_index (heure_soir times) (minutes_soir times)
                         then [] else [Logged ''SCH-004'']);
                    jours_nums =
                      jours_nums_of date_debut_dt (case date_debut of Some s \<Rightarrow> s | None \<Rightarrow> [])
                        (jours_a_copier date_debut_dt date_fin_dt vendredi_index 0
                           (headers_before page));
                    copie =
                      (if jours_nums = [] then []
                       else CopyDays vendredi_index jours_nums
                            # (case copy_vendredi_to_days (copy_calendar page) vendredi_index
                                      jours_nums of
                                 Inr _ \<Rightarrow> []
                               | Inl _ \<Rightarrow> [Logged ''SCH-005'']));
                    aprem =
                      add_matinees page date_debut_dt date_fin_dt (heure_aprem times)
                        (minutes_aprem times) 0 (headers_after page)
                in (True, soir @ copie @ aprem))))))"

section \<open>The whole run: \<^verbatim>\<open>full_workflow_usb\<close>\<close>

text \<open>
  \<^verbatim>\<open>
  format_letter = "S" if format_type.lower() == "scope" else "F"
  return f"{salle} - {format_letter} - {film_name}"
  \<close>
\<close>

definition generate_block_name :: "string \<Rightarrow> string \<Rightarrow> string \<Rightarrow> string" where
  "generate_block_name film_name format_type salle =
     salle @ '' - '' @ (if py_lower format_type = ''scope'' then ''S'' else ''F'') @ '' - '' @ film_name"

text \<open>
  The console as the whole run meets it: whether the browser starts (otherwise the outer
  \<^verbatim>\<open>except\<close> returns \<^verbatim>\<open>False\<close>), the outcomes of \<^verbatim>\<open>login\<close>, \<^verbatim>\<open>navigate_to_import_usb\<close>,
  \<^verbatim>\<open>navigate_to_session_editor\<close>, \<^verbatim>\<open>select_block\<close> for a format and \<^verbatim>\<open>replace_film_in_block\<close>
  for a title and a block name (each of them catches its own exceptions), the USB listing and
  the scheduler page. \<^verbatim>\<open>x or y\<close> on strings takes \<^verbatim>\<open>y\<close> when \<^verbatim>\<open>x\<close> is missing or empty.
\<close>

record console =
  browser_starts :: bool
  login_ok :: bool
  import_usb_opens :: bool
  usb :: usb_page
  session_editor_opens :: bool
  select_block_ok :: "string \<Rightarrow> bool"
  replace_film_ok :: "string \<Rightarrow> string \<Rightarrow> bool"
  scheduler :: scheduler_page

definition or_else :: "string option \<Rightarrow> string \<Rightarrow> string" where
  "or_else x y = (case x of None \<Rightarrow> y | Some s \<Rightarrow> if s = [] then y else s)"

definition full_workflow_usb ::
  "console \<Rightarrow> string option \<Rightarrow> string option \<Rightarrow> string option \<Rightarrow> string \<Rightarrow> string option
     \<Rightarrow> string option \<Rightarrow> bool \<times> sch_event list" where
  "full_workflow_usb c film_name format_type salle_name minutes date_debut date_fin =
     (if \<not> browser_starts c then (False, [])
      else if \<not> login_ok c then (False, [])
      else if \<not> import_usb_opens c then (False, [])
      else
        (let sel = select_qfc_from_usb (usb c) film_name in
         if \<not> selection_ok sel then (False, [])
         else
           (let detected_format =
                  or_else (imported_film_format sel) (or_else format_type ''scope'');
                imported_text = or_else (imported_film_text sel) [];
                extracted_film_name =
                  (if imported_text = [] then ''Film'' else extract_film_name imported_text);
                auto_block_name =
                  generate_block_name extracted_film_name detected_format
                    (or_else salle_name ''Brunet'')
            in if \<not> session_editor_opens c then (False, [])
               else if \<not> select_block_ok c detected_format then (False, [])
               else if \<not> replace_film_ok c extracted_film_name auto_block_name then (False, [])
               else (True, snd (schedule_seances (scheduler c) minutes date_debut date_fin)))))"

text \<open>
  The week of Friday 30 January 2026 as the scheduler shows it, with a January page in the
  copy modal, and a console on which every step before the scheduler succeeds.
\<close>

definition semaine_30_janvier :: "day_header list" where
  "semaine_30_janvier =
     map (\<lambda>(d, t). \<lparr>day_p = Some d, date_p = Some t\<rparr>)
       [(''Vendredi'', ''30/01/2026''), (''Samedi'', ''31/01/2026''), (''Dimanche'', ''01/02/2026''),
        (''Lundi'', ''02/02/2026''), (''Mardi'', ''03/02/2026''), (''Mercredi'', ''04/02/2026''),
        (''Jeudi'', ''05/02/2026'')]"

definition page_30_janvier :: "bool \<Rightarrow> scheduler_page" where
  "page_30_janvier placements_succeed =
     \<lparr>scheduler_loads = True, headers_before = semaine_30_janvier, views_before = 7,
      headers_after = semaine_30_janvier, views_after = 7,
      add_seance_ok = (\<lambda>_ _ _. placements_succeed),
      copy_calendar = (month_modal 31)\<lparr>modal_opens := placements_succeed\<rparr>\<rparr>"

definition console_30_janvier :: "bool \<Rightarrow> console" where
  "console_30_janvier placements_succeed =
     \<lparr>browser_starts = True, login_ok = True, import_usb_opens = True,
      usb = usb_listing [''MERCY_FTR_S_QFC-CCAP_CA_51_2K''],
      session_editor_opens = True, select_block_ok = (\<lambda>_. True),
      replace_film_ok = (\<lambda>_ _. True), scheduler = page_30_janvier placements_succeed\<rparr>"

section \<open>Properties of the string model\<close>

lemmas case_simps = py_upper_def py_lower_def upper_char_def lower_char_def
  lower_letters_def upper_letters_def

lemma sublist_map_iff: "sublist p (map f t) \<longleftrightarrow> (\<exists>s. sublist s t \<and> map f s = p)"
proof
  assume "sublist p (map f t)"
  then obtain a b where "map f t = a @ p @ b"
    by (auto simp: sublist_def)
  then obtain a' r where t: "t = a' @ r" and r: "map f r = p @ b"
    by (metis map_eq_append_conv)
  from r obtain s b' where "r = s @ b'" and "map f s = p"
    by (metis map_eq_append_conv)
  with t show "\<exists>s. sublist s t \<and> map f s = p"
    by (auto simp: sublist_def)
next
  assume "\<exists>s. sublist s t \<and> map f s = p"
  then obtain s ps ss where "map f s = p" and "t = ps @ s @ ss"
    by (auto simp: sublist_def)
  then have "map f t = map f ps @ p @ map f ss"
    by simp
  then show "sublist p (map f t)"
    unfolding sublist_def by blast
qed

lemma upper_sublist_ci:
  "py_upper pat = pat \<Longrightarrow> sublist pat (py_upper text) \<longleftrightarrow> ci_contains pat text"
  unfolding ci_contains_def py_upper_def by (simp add: sublist_map_iff)

section \<open>Format detection\<close>

lemma detect_film_format_ci:
  "detect_film_format text =
     (if ci_contains ''SCOPE'' text \<or> ci_contains ''_S_'' text \<or> ci_contains ''-S-'' text
      then ''scope''
      else if ci_contains ''FLAT'' text \<or> ci_contains ''_F_'' text \<or> ci_contains ''-F-'' text
      then ''flat''
      else ''scope'')"
proof -
  have fixed: "py_upper ''SCOPE'' = ''SCOPE''" "py_upper ''_S_'' = ''_S_''"
    "py_upper ''-S-'' = ''-S-''" "py_upper ''FLAT'' = ''FLAT''"
    "py_upper ''_F_'' = ''_F_''" "py_upper ''-F-'' = ''-F-''"
    by (simp_all add: case_simps)
  show ?thesis
    unfolding detect_film_format_def Let_def by (simp only: fixed upper_sublist_ci)
qed

lemma detect_film_format_examples:
  "detect_film_format ''ALPHA_SCOPE_QFC_2K'' = ''scope''"
  "detect_film_format ''ALPHA_FLAT_QFC_2K'' = ''flat''"
  "detect_film_format ''ALPHA_QFC_2K'' = ''scope''"
  by (simp_all add: detect_film_format_def case_simps Let_def sublist_code)

text \<open>
  C7. For every input string the detected format is found by a case-insensitive substring
  search in fixed order: \<open>scope\<close> when the text contains \<^verbatim>\<open>SCOPE\<close>, \<^verbatim>\<open>_S_\<close> or \<^verbatim>\<open>-S-\<close>;
  otherwise \<open>flat\<close> when it contains \<^verbatim>\<open>FLAT\<close>, \<^verbatim>\<open>_F_\<close> or \<^verbatim>\<open>-F-\<close>; otherwise \<open>scope\<close>. The three sample descriptors map to
  scope, flat and scope.
\<close>

theorem detect_film_format_spec:
  "detect_film_format descr =
     (if ci_contains ''SCOPE'' descr \<or> ci_contains ''_S_'' descr \<or> ci_contains ''-S-'' descr
      then ''scope''
      else if ci_contains ''FLAT'' descr \<or> ci_contains ''_F_'' descr \<or> ci_contains ''-F-'' descr
      then ''flat''
      else ''scope'')
   \<and> detect_film_format ''ALPHA_SCOPE_QFC_2K'' = ''scope''
   \<and> detect_film_format ''ALPHA_FLAT_QFC_2K'' = ''flat''
   \<and> detect_film_format ''ALPHA_QFC_2K'' = ''scope''"
  using detect_film_format_ci [of descr] detect_film_format_examples by simp

section \<open>Time lookup\<close>

text \<open>
  C4. The time lookup is a total function of the pattern: \<open>00\<close> gives evening 18:50 and matinee
  12:50, \<open>15\<close> gives 19:05 and 13:05, \<open>30\<close> gives 19:20 and 13:20, and every other pattern gives
  the times of \<open>00\<close>.
\<close>

theorem time_lookup_table:
  "time_lookup ''00'' =
     \<lparr>heure_soir = 18, minutes_soir = ''50'', heure_aprem = 12, minutes_aprem = ''50''\<rparr>
   \<and> time_lookup ''15'' =
     \<lparr>heure_soir = 19, minutes_soir = ''05'', heure_aprem = 13, minutes_aprem = ''05''\<rparr>
   \<and> time_lookup ''30'' =
     \<lparr>heure_soir = 19, minutes_soir = ''20'', heure_aprem = 13, minutes_aprem = ''20''\<rparr>
   \<and> (p \<noteq> ''15'' \<and> p \<noteq> ''30'' \<longrightarrow> time_lookup p = time_lookup ''00'')"
  by (simp add: time_lookup_def)

theorem time_lookup_table_witness:
  "''45'' \<noteq> ''15'' \<and> ''45'' \<noteq> ''30'' \<and> time_lookup ''45'' = time_lookup ''00''
   \<and> heure_soir (time_lookup ''45'') = 18 \<and> minutes_soir (time_lookup ''45'') = ''50''"
  using time_lookup_table [of "''45''"] by simp

section \<open>Decimal numbers\<close>

lemma digit_cases: "d < 10 \<Longrightarrow> d \<in> {0, 1, 2, 3, 4, 5, 6, 7, 8, 9::nat}"
  by auto

lemma digit_char_props: "d < 10 \<Longrightarrow> is_digit (digit_char d) \<and> digit_val (digit_char d) = d"
  using digit_cases [of d] by (auto simp: digit_table_def is_digit_def digit_val_def digit_char_def)

lemma digits_value_snoc: "digits_value (ds @ [c]) = 10 * digits_value ds + digit_val c"
  by (simp add: digits_value_def)

lemma str_nat_digits: "list_all is_digit (str_nat n) \<and> str_nat n \<noteq> [] \<and> digits_value (str_nat n) = n"
proof (induction n rule: str_nat.induct)
  case (1 n)
  show ?case
  proof (cases "n < 10")
    case True
    then have "str_nat n = [digit_char n]"
      by (subst str_nat.simps) simp
    then show ?thesis
      using True digit_char_props [of n] by (simp add: digits_value_def)
  next
    case False
    then have ih: "list_all is_digit (str_nat (n div 10))" "digits_value (str_nat (n div 10)) = n div 10"
      using "1.IH" by simp_all
    have d: "is_digit (digit_char (n mod 10))" "digit_val (digit_char (n mod 10)) = n mod 10"
      using digit_char_props [of "n mod 10"] by simp_all
    from False have eq: "str_nat n = str_nat (n div 10) @ [digit_char (n mod 10)]"
      by (subst str_nat.simps) simp
    show ?thesis
      unfolding eq using ih d by (simp add: digits_value_snoc)
  qed
qed

lemma digit_not_space: "is_digit c \<Longrightarrow> \<not> is_space c"
  by (auto simp: is_digit_def is_space_def digit_table_def split: if_splits)

lemma digit_not_sign: "is_digit c \<Longrightarrow> c \<noteq> CHR ''-'' \<and> c \<noteq> CHR ''+'' \<and> c \<noteq> CHR ''_''"
  by (auto simp: is_digit_def digit_table_def split: if_splits)

lemma no_double_underscore_digits: "list_all is_digit ds \<Longrightarrow> no_double_underscore ds"
  by (induction ds rule: no_double_underscore.induct) (auto dest: digit_not_sign)

lemma dropWhile_none: "list_all (\<lambda>c. \<not> P c) xs \<Longrightarrow> dropWhile P xs = xs"
  by (cases xs) simp_all

lemma py_strip_digits: "list_all is_digit ds \<Longrightarrow> py_strip ds = ds"
proof -
  assume "list_all is_digit ds"
  then have a: "list_all (\<lambda>c. \<not> is_space c) ds"
    by (auto simp: list_all_iff dest: digit_not_space)
  then have "list_all (\<lambda>c. \<not> is_space c) (rev ds)"
    by (simp add: list_all_iff)
  then show ?thesis
    using a by (simp add: py_strip_def dropWhile_none)
qed

lemma py_int_digits:
  assumes "list_all is_digit ds" "ds \<noteq> []"
  shows "py_int ds = Some (int (digits_value ds))"
proof -
  have s: "py_strip ds = ds" using assms py_strip_digits by simp
  have h: "is_digit (hd ds)" "is_digit (last ds)"
    using assms by (auto simp: list_all_iff)
  have f: "filter is_digit ds = ds" using assms by (simp add: list_all_iff)
  have l: "int_literal ds"
    using assms h no_double_underscore_digits [OF assms(1)]
    by (auto simp: int_literal_def list_all_iff)
  show ?thesis
    using s h l f digit_not_sign [OF h(1)] assms(2) by (simp add: py_int_def Let_def)
qed

lemma py_int_py_str: "py_int (py_str (int n)) = Some (int n)"
  using py_int_digits [of "str_nat n"] str_nat_digits [of n] by (simp add: py_str_def)

lemma py_int_format_02d: "py_int (format_02d (int n)) = Some (int n)"
proof -
  have z: "is_digit CHR ''0''" "digit_val CHR ''0'' = 0"
    by (simp_all add: is_digit_def digit_val_def digit_table_def)
  have "py_int (CHR ''0'' # str_nat n) = Some (int (digits_value (CHR ''0'' # str_nat n)))"
    using py_int_digits [of "CHR ''0'' # str_nat n"] str_nat_digits [of n] z by simp
  moreover have "digits_value (CHR ''0'' # str_nat n) = digits_value (str_nat n)"
    using z by (simp add: digits_value_def)
  ultimately show ?thesis
    using py_int_py_str [of n] str_nat_digits [of n] by (simp add: format_02d_def py_str_def)
qed

section \<open>The end marker\<close>

lemma fermer_lampe_time_gen:
  "fermer_hour (fermer_lampe_of h (format_02d (int m))) = (if 50 \<le> m then h + 3 else h + 2)
   \<and> fermer_minutes (fermer_lampe_of h (format_02d (int m)))
       = (if 50 \<le> m then int m + 10 - 60 else int m + 10)"
  by (simp add: fermer_lampe_of_def minutes_int_of_def py_int_format_02d Let_def)

lemma format_02d_50: "format_02d 50 = ''50''"
  by code_simp

text \<open>
  C3. For a show placed at hour \<open>h\<close>, minute \<open>m\<close> (written with two digits, as the planner does),
  the end marker is placed 2 hours 10 minutes later: hour \<open>h + 2\<close> and minute \<open>m + 10\<close>, with 60
  taken off the minutes and one hour added exactly when \<open>m \<ge> 50\<close>; a show at 18:50 has its
  end marker at 21:00.
\<close>

theorem fermer_lampe_time:
  "m < 60 \<Longrightarrow>
     fermer_hour (fermer_lampe_of h (format_02d (int m))) = h + 2 + (if 50 \<le> m then 1 else 0)
     \<and> fermer_minutes (fermer_lampe_of h (format_02d (int m)))
         = int m + 10 - (if 50 \<le> m then 60 else 0)
     \<and> 0 \<le> fermer_minutes (fermer_lampe_of h (format_02d (int m)))
     \<and> fermer_minutes (fermer_lampe_of h (format_02d (int m))) < 60"
  using fermer_lampe_time_gen [of h m] by auto

theorem fermer_lampe_time_witness:
  "fermer_hour (fermer_lampe_of 18 ''50'') = 21 \<and> fermer_minutes (fermer_lampe_of 18 ''50'') = 0"
  using fermer_lampe_time [of 50 18] format_02d_50 by simp

section \<open>Click offsets\<close>

lemma offset_y_table:
  "offset_y ''00'' = - 34" "offset_y ''05'' = - 28" "offset_y ''10'' = - 22"
  "offset_y ''15'' = - 17" "offset_y ''20'' = - 11" "offset_y ''30'' = 0" "offset_y ''50'' = 22"
  by (simp_all add: offset_y_def minutes_offset_map_def)

lemma offset_y_computed:
  "map_of minutes_offset_map (format_02d (int m)) = None \<Longrightarrow>
     offset_y (format_02d (int m)) = int_of_scaled (int m) line_height - 34"
  by (simp add: offset_y_def minutes_int_of_def py_int_format_02d)

lemma fermer_offset_computed:
  "m < 50 \<Longrightarrow> map_of minutes_offset_map (format_02d (int m + 10)) = None \<Longrightarrow>
     fermer_offset (fermer_lampe_of h (format_02d (int m))) = int_of_scaled (int m + 10) line_height"
  by (simp add: fermer_lampe_of_def minutes_int_of_def py_int_format_02d Let_def)

text \<open>
  C5. The click offset of a minute outside the table is the truncated \<open>minute / 60\<close> of the cell
  height minus the centring constant 34 for the show itself; for the end marker the same
  branch leaves the constant out. At the documented minute value \<open>15\<close> the end marker falls on
  minute 25, which is not in the table: its offset is 27, while the show's own formula gives
  \<open>- 7\<close> for minute 25.
\<close>

theorem fermer_offset_not_centred:
  "fermer_minutes (fermer_lampe_of 19 ''15'') = 25
   \<and> fermer_offset (fermer_lampe_of 19 ''15'') = 27
   \<and> offset_y ''25'' = - 7
   \<and> fermer_offset (fermer_lampe_of 19 ''15'') \<noteq> offset_y ''25''"
  by code_simp

section \<open>Content selection\<close>

lemma scan_items_listed:
  "scan_items crit (map listed ds) = List.find (\<lambda>d. crit (py_upper d)) ds"
  by (induction ds) (simp_all add: listed_def)

lemma find_tier:
  "List.find (tier n) ds = None \<longleftrightarrow> \<not> list_ex (tier n) ds"
  by (auto simp: find_None_iff list_ex_iff)

lemma tier_unfold:
  "tier 1 = (\<lambda>d. is_qfc (py_upper d) \<and> has_ccap_not_ocap (py_upper d) \<and> has_volume (py_upper d))"
  "tier 2 = (\<lambda>d. is_fr (py_upper d) \<and> has_ccap_not_ocap (py_upper d) \<and> has_volume (py_upper d))"
  "tier 3 = (\<lambda>d. is_qfc (py_upper d) \<and> has_volume (py_upper d))"
  "tier 4 = (\<lambda>d. is_fr (py_upper d) \<and> has_volume (py_upper d))"
  "tier 5 = (\<lambda>d. is_qfc (py_upper d))"
  "tier 6 = (\<lambda>d. is_fr (py_upper d))"
  by (rule ext, simp add: tier_def Let_def)+

lemma scan_tiers_find:
  "scan_tiers (map listed ds) =
     (case List.find (tier 1) ds of Some d \<Rightarrow> Some d | None \<Rightarrow>
     (case List.find (tier 2) ds of Some d \<Rightarrow> Some d | None \<Rightarrow>
     (case List.find (tier 3) ds of Some d \<Rightarrow> Some d | None \<Rightarrow>
     (case List.find (tier 4) ds of Some d \<Rightarrow> Some d | None \<Rightarrow>
     (case List.find (tier 5) ds of Some d \<Rightarrow> Some d | None \<Rightarrow> List.find (tier 6) ds)))))"
  unfolding scan_tiers_def scan_items_listed tier_unfold by (rule refl)

lemma find_cases:
  "(case List.find (tier n) ds of Some d \<Rightarrow> Some d | None \<Rightarrow> r) =
     (if list_ex (tier n) ds then List.find (tier n) ds else r)"
  using find_tier [of n ds] by (cases "List.find (tier n) ds") auto

lemma scan_tiers_tier_select: "scan_tiers (map listed ds) = tier_select ds"
proof -
  have six: "List.find (tier 6) ds = (if list_ex (tier 6) ds then List.find (tier 6) ds else None)"
    using find_tier [of 6 ds] by simp
  show ?thesis
    unfolding scan_tiers_find find_cases tier_select_def
    by (subst six) simp
qed

lemma select_listing:
  "imported_film_text (select_qfc_from_usb (usb_listing ds) None) = tier_select ds"
  by (simp add: select_qfc_from_usb_def usb_listing_def scan_tiers_tier_select imported_def
      nothing_selected_def split: option.split)

lemma select_listing_ok:
  "selection_ok (select_qfc_from_usb (usb_listing ds) None) \<longleftrightarrow> tier_select ds \<noteq> None"
  by (simp add: select_qfc_from_usb_def usb_listing_def scan_tiers_tier_select imported_def
      nothing_selected_def split: option.split)

lemma tier_select_None:
  "tier_select ds = None \<longleftrightarrow> \<not> list_ex (\<lambda>d. list_ex (\<lambda>n. tier n d) [1, 2, 3, 4, 5, 6]) ds"
proof -
  have "tier_select ds = None \<longleftrightarrow> (\<forall>n \<in> set [1, 2, 3, 4, 5, 6]. \<not> list_ex (tier n) ds)"
    unfolding tier_select_def using find_tier [of _ ds]
    by (auto split: list.splits simp: filter_empty_conv Cons_eq_filter_iff)
  then show ?thesis
    by (auto simp: list_ex_iff)
qed

text \<open>
  C2. With no target title, the selector tries the six tiers in order, scanning the whole
  list from the top within each tier, and returns the first descriptor of the earliest tier
  that some descriptor satisfies; a tier-5 descriptor listed before a tier-1 descriptor loses to
  it; and the selector fails exactly when no descriptor satisfies any tier.
\<close>

theorem select_qfc_tiers:
  "imported_film_text (select_qfc_from_usb (usb_listing ds) None) = tier_select ds
   \<and> (tier 5 a \<and> \<not> tier 1 a \<and> tier 1 b \<longrightarrow>
        imported_film_text (select_qfc_from_usb (usb_listing [a, b]) None) = Some b)
   \<and> (selection_ok (select_qfc_from_usb (usb_listing ds) None) \<longleftrightarrow>
        list_ex (\<lambda>d. list_ex (\<lambda>n. tier n d) [1, 2, 3, 4, 5, 6]) ds)"
proof -
  have "tier 5 a \<and> \<not> tier 1 a \<and> tier 1 b \<longrightarrow> tier_select [a, b] = Some b"
    by (simp add: tier_select_def)
  then show ?thesis
    using tier_select_None [of ds] by (simp add: select_listing select_listing_ok)
qed

theorem select_qfc_tiers_witness:
  "tier 5 ''FILM_QFC_2K'' \<and> \<not> tier 1 ''FILM_QFC_2K'' \<and> tier 1 ''FILM_QFC_CCAP_CA_51_2K''
   \<and> imported_film_text
        (select_qfc_from_usb (usb_listing [''FILM_QFC_2K'', ''FILM_QFC_CCAP_CA_51_2K'']) None)
      = Some ''FILM_QFC_CCAP_CA_51_2K''"
proof -
  have t: "tier 5 ''FILM_QFC_2K''" "\<not> tier 1 ''FILM_QFC_2K''" "tier 1 ''FILM_QFC_CCAP_CA_51_2K''"
    by code_simp+
  then show ?thesis
    using select_qfc_tiers [of "[]" "''FILM_QFC_2K''" "''FILM_QFC_CCAP_CA_51_2K''"] by simp
qed

section \<open>The bulk copy\<close>

lemma py_str_inj:
  assumes "0 \<le> i" "0 \<le> j" "py_str i = py_str j"
  shows "i = j"
proof -
  have "py_int (py_str (int (nat i))) = Some (int (nat i))"
       "py_int (py_str (int (nat j))) = Some (int (nat j))"
    by (rule py_int_py_str)+
  with assms show ?thesis by simp
qed

lemma month_calendar_no_match:
  assumes "month_calendar n cells" "n < j"
  shows "\<not> list_ex (cell_matches j) cells"
proof
  assume "list_ex (cell_matches j) cells"
  then obtain c where c: "c \<in> set cells" "cell_matches j c"
    by (auto simp: list_ex_iff)
  then have m: "\<not> cell_excluded c" "py_strip (cell_text c) = py_str j"
    by (auto simp: cell_matches_def split: if_splits)
  from assms(1) c(1) have "cell_excluded c \<or> (\<exists>k\<in>{1..n}. py_strip (cell_text c) = py_str k)"
    by (simp add: month_calendar_def list_all_iff list_ex_iff)
  with m(1) obtain k where k: "1 \<le> k" "k \<le> n" "py_strip (cell_text c) = py_str k"
    by auto
  with m(2) assms(2) have "k = j"
    using py_str_inj [of k j] by simp
  with k(2) assms(2) show False by simp
qed

lemma copy_result:
  assumes "vendredi_index < n_day_headers modal" "dropdown_opens modal" "copy_day_clicks modal"
    "modal_opens modal"
  shows "copy_vendredi_to_days modal vendredi_index targets =
           (if jours_trouves (day_cells modal) targets = [] then Inl CPY005
            else if \<not> ok_clickable modal then Inl CPY006
            else Inr (jours_trouves (day_cells modal) targets))"
  using assms by (simp add: copy_vendredi_to_days_def)

lemma jours_trouves_empty:
  "jours_trouves cells targets = [] \<longleftrightarrow> \<not> list_ex (\<lambda>j. list_ex (cell_matches j) cells) targets"
  by (auto simp: jours_trouves_def filter_empty_conv list_ex_iff)

lemma january_copy:
  "copy_vendredi_to_days (month_modal 31) 0 [31, 32, 35, 36] = Inr [31]"
  by code_simp

text \<open>
  C9 as stated fails: on a January calendar the targets 31, 32, 35, 36 leave only 31 selected,
  and the operation still reports success.
\<close>

theorem copy_partial_selection_succeeds:
  "copy_vendredi_to_days (month_modal 31) 0 [31, 32, 35, 36] = Inr [31]
   \<and> \<not> list_all (\<lambda>j. j \<in> set [31]) [31, 32, 35, 36 :: int]"
  using january_copy by simp

text \<open>
  C9, amended. Once the header, the dropdown, the copy link and the modal have reacted, the
  operation fails at the selection step (CPY-005) exactly when none of the intended target days
  could be selected; with a clickable confirmation button it reports success exactly when at
  least one intended target day was selected, and the days it reports are the targets that have
  a selectable calendar cell.
\<close>

theorem copy_fails_iff_none_selected:
  "vendredi_index < n_day_headers modal \<Longrightarrow> dropdown_opens modal \<Longrightarrow> copy_day_clicks modal \<Longrightarrow>
   modal_opens modal \<Longrightarrow>
     (copy_vendredi_to_days modal vendredi_index targets = Inl CPY005
        \<longleftrightarrow> \<not> list_ex (\<lambda>j. list_ex (cell_matches j) (day_cells modal)) targets)
     \<and> (ok_clickable modal \<longrightarrow>
          (copy_vendredi_to_days modal vendredi_index targets
             = Inr (filter (\<lambda>j. list_ex (cell_matches j) (day_cells modal)) targets))
          = list_ex (\<lambda>j. list_ex (cell_matches j) (day_cells modal)) targets)"
  using jours_trouves_empty [of "day_cells modal" targets]
  by (simp add: copy_result) (auto simp: jours_trouves_def)

theorem copy_fails_iff_none_selected_witness:
  "copy_vendredi_to_days (month_modal 31) 0 [31, 32, 35, 36]
     = Inr (filter (\<lambda>j. list_ex (cell_matches j) (day_cells (month_modal 31))) [31, 32, 35, 36])
   \<and> list_ex (\<lambda>j. list_ex (cell_matches j) (day_cells (month_modal 31))) [31, 32, 35, 36]
   \<and> copy_vendredi_to_days (month_modal 31) 0 [32, 35, 36] = Inl CPY005"
proof -
  have m: "0 < n_day_headers (month_modal 31)" "dropdown_opens (month_modal 31)"
    "copy_day_clicks (month_modal 31)" "modal_opens (month_modal 31)" "ok_clickable (month_modal 31)"
    by (simp_all add: month_modal_def)
  have f: "list_ex (\<lambda>j. list_ex (cell_matches j) (day_cells (month_modal 31))) [31, 32, 35, 36]"
    by code_simp
  have n: "\<not> list_ex (\<lambda>j. list_ex (cell_matches j) (day_cells (month_modal 31))) [32, 35, 36]"
    by code_simp
  show ?thesis
    using copy_fails_iff_none_selected [OF m(1-4), of "[31, 32, 35, 36]"]
      copy_fails_iff_none_selected [OF m(1-4), of "[32, 35, 36]"] m(5) f n
    by simp
qed

section \<open>The targets of the copy\<close>

lemma parse_date_day:
  assumes "parse_date s = Some a"
  shows "py_int (hd (split_on CHR ''/'' s)) = Some (day a)"
proof -
  let ?parts = "split_on CHR ''/'' s"
  from assms have len: "\<not> length ?parts < 3"
    by (auto simp: parse_date_def Let_def split: if_splits)
  then have hd: "?parts ! 0 = hd ?parts"
    by (cases ?parts) auto
  from assms len obtain y m d where "py_int (?parts ! 0) = Some d" "datetime y m d = Some a"
    by (auto simp: parse_date_def Let_def split: if_splits option.splits)
  then show ?thesis
    using hd by (auto simp: datetime_def split: if_splits)
qed

lemma parse_date_valid:
  assumes "parse_date s = Some a"
  shows "1 \<le> day a \<and> day a \<le> days_in_month (year a) (month a)"
  using assms
  by (auto simp: parse_date_def Let_def datetime_def split: if_splits option.splits)

lemma jours_nums_parsed:
  assumes "parse_date s = Some a"
  shows "jours_nums_of (parse_date s) s js = [day a + 1, day a + 2, day a + 5, day a + 6]"
  using assms parse_date_day [OF assms] by (simp add: jours_nums_of_def Let_def)

text \<open>
  C10. With a start date, the four targets of the bulk copy are the anchor's day of the month
  plus 1, 2, 5 and 6, with no month rollover; a target is matched in the copy calendar by
  equality of the cell text with the number's decimal string; so when fewer than six days of
  the month follow the anchor, the last target exceeds the last day of the month and no cell
  of that month's calendar matches it.
\<close>

theorem jours_nums_no_rollover:
  "parse_date date_debut = Some a \<Longrightarrow>
     jours_nums_of (parse_date date_debut) date_debut js
       = [day a + 1, day a + 2, day a + 5, day a + 6]
     \<and> cell_matches j c = (if cell_excluded c then False else py_strip (cell_text c) = py_str j)
     \<and> (days_in_month (year a) (month a) - 6 < day a \<longrightarrow>
          list_ex (\<lambda>t. days_in_month (year a) (month a) < t)
            (jours_nums_of (parse_date date_debut) date_debut js))
     \<and> (days_in_month (year a) (month a) - 6 < day a
          \<and> month_calendar (days_in_month (year a) (month a)) cells \<longrightarrow>
          \<not> list_ex (cell_matches (day a + 6)) cells
          \<and> day a + 6 \<notin> set (jours_trouves cells
                                 (jours_nums_of (parse_date date_debut) date_debut js)))"
proof -
  assume p: "parse_date date_debut = Some a"
  have jn: "jours_nums_of (parse_date date_debut) date_debut js
              = [day a + 1, day a + 2, day a + 5, day a + 6]"
    by (rule jours_nums_parsed [OF p])
  have nm: "\<not> list_ex (cell_matches (day a + 6)) cells"
    if "days_in_month (year a) (month a) - 6 < day a"
      "month_calendar (days_in_month (year a) (month a)) cells"
    using month_calendar_no_match [OF that(2), of "day a + 6"] that(1) by simp
  show ?thesis
    unfolding jn using nm by (auto simp: cell_matches_def jours_trouves_def)
qed

lemma parse_30_janvier:
  "parse_date ''30/01/2026'' = Some \<lparr>year = 2026, month = 1, day = 30\<rparr>"
  by code_simp

lemma january_calendar: "month_calendar 31 (month_cells 31)"
  by code_simp

theorem jours_nums_no_rollover_witness:
  "jours_nums_of (parse_date ''30/01/2026'') ''30/01/2026'' [] = [31, 32, 35, 36]
   \<and> \<not> list_ex (cell_matches 36) (month_cells 31)
   \<and> list_ex (\<lambda>t. 31 < t) (jours_nums_of (parse_date ''30/01/2026'') ''30/01/2026'' [])"
  using jours_nums_no_rollover [OF parse_30_janvier, of "[]" 0 "\<lparr>cell_class = [], cell_text = []\<rparr>"
      "month_cells 31"] january_calendar
  by (simp add: days_in_month_def)

section \<open>Title extraction\<close>

lemma split_where_nonempty: "split_where p s \<noteq> []"
  by (induction s) (auto split: list.splits)

lemma hd_split_where: "hd (split_where p s) = takeWhile (\<lambda>c. \<not> p c) s"
  using split_where_nonempty [of p]
  by (induction s) (auto split: list.splits)

lemma sep_then_starts: "sep_then follows r \<Longrightarrow> starts_with is_sep r"
  by (cases r) (simp_all add: sep_then_def starts_with_def)

lemma cut_at_first_segment:
  assumes "\<And>r. head r \<Longrightarrow> starts_with is_sep r"
  shows "takeWhile (\<lambda>c. \<not> is_sep c) (cut_at head s) = takeWhile (\<lambda>c. \<not> is_sep c) s"
proof (induction s)
  case Nil
  show ?case by simp
next
  case (Cons c cs)
  show ?case
  proof (cases "head (c # cs)")
    case True
    then have "is_sep c"
      using assms [of "c # cs"] by (simp add: starts_with_def)
    with True show ?thesis by simp
  next
    case False
    with Cons show ?thesis by simp
  qed
qed

lemma foldl_cut_first_segment:
  "list_all (\<lambda>head. \<forall>r. head r \<longrightarrow> starts_with is_sep r) heads \<Longrightarrow>
     takeWhile (\<lambda>c. \<not> is_sep c) (foldl (\<lambda>film_name pattern. cut_at pattern film_name) s heads)
       = takeWhile (\<lambda>c. \<not> is_sep c) s"
proof (induction heads arbitrary: s)
  case Nil
  show ?case by simp
next
  case (Cons h hs)
  then have "takeWhile (\<lambda>c. \<not> is_sep c) (cut_at h s) = takeWhile (\<lambda>c. \<not> is_sep c) s"
    using cut_at_first_segment [of h s] by simp
  with Cons show ?case by simp
qed

lemma strip_codes_first_segment:
  "takeWhile (\<lambda>c. \<not> is_sep c) (strip_codes s) = takeWhile (\<lambda>c. \<not> is_sep c) s"
  unfolding strip_codes_def
  by (rule foldl_cut_first_segment) (simp add: patterns_stop_def sep_then_starts)

lemma py_strip_prefix: "\<exists>zs. dropWhile is_space s = py_strip s @ zs"
proof -
  let ?y = "dropWhile is_space s"
  have "?y = rev (rev ?y)"
    by simp
  also have "\<dots> = rev (takeWhile is_space (rev ?y) @ dropWhile is_space (rev ?y))"
    by (simp only: takeWhile_dropWhile_id)
  also have "\<dots> = rev (dropWhile is_space (rev ?y)) @ rev (takeWhile is_space (rev ?y))"
    by (rule rev_append)
  finally have "?y = py_strip s @ rev (takeWhile is_space (rev ?y))"
    by (simp only: py_strip_def)
  then show ?thesis by blast
qed

lemma py_strip_head: "py_strip s \<noteq> [] \<Longrightarrow> \<not> is_space (hd (py_strip s))"
proof -
  assume ne: "py_strip s \<noteq> []"
  obtain zs where zs: "dropWhile is_space s = py_strip s @ zs"
    using py_strip_prefix by blast
  with ne have "dropWhile is_space s \<noteq> []" and "hd (dropWhile is_space s) = hd (py_strip s)"
    by auto
  then show ?thesis
    using hd_dropWhile [of is_space s] by auto
qed

lemma py_words_first:
  "s \<noteq> [] \<Longrightarrow> \<not> is_space (hd s) \<Longrightarrow>
     (case py_words s of w # _ \<Rightarrow> w | [] \<Rightarrow> s) = takeWhile (\<lambda>c. \<not> is_space c) s"
proof -
  assume ne: "s \<noteq> []" and h: "\<not> is_space (hd s)"
  obtain q qs where q: "split_where is_space s = q # qs"
    using split_where_nonempty [of is_space s] by (cases "split_where is_space s") auto
  then have "q = takeWhile (\<lambda>c. \<not> is_space c) s"
    using hd_split_where [of is_space s] by simp
  moreover from ne h have "takeWhile (\<lambda>c. \<not> is_space c) s \<noteq> []"
    by (cases s) auto
  ultimately show ?thesis
    using q by (simp add: py_words_def)
qed

lemma extract_film_name_unfolded:
  "extract_film_name s =
     (let line = takeWhile (\<lambda>c. c \<noteq> CHR 0x0A) (py_strip s);
          run = takeWhile is_alnum line;
          segment = takeWhile (\<lambda>c. \<not> is_sep c) line;
          cleaned = seps_to_spaces (strip_codes line)
      in if 3 \<le> length run then py_title run
         else if 2 \<le> length segment then py_title segment
         else if cleaned = [] then ''Film''
         else py_title (takeWhile (\<lambda>c. \<not> is_space c) cleaned))"
proof -
  have w: "cleaned \<noteq> [] \<Longrightarrow>
      (case py_words cleaned of w # _ \<Rightarrow> w | [] \<Rightarrow> cleaned) = takeWhile (\<lambda>c. \<not> is_space c) cleaned"
    if "cleaned = seps_to_spaces r" for cleaned r
    using that py_words_first [of cleaned] py_strip_head by (simp add: seps_to_spaces_def)
  have l2: "(xs \<noteq> [] \<and> 2 \<le> length xs) = (2 \<le> length xs)" for xs :: string
    by auto
  show ?thesis
    unfolding extract_film_name_def Let_def hd_split_where strip_codes_first_segment l2
    using w [OF refl] by simp
qed

lemma mercy:
  "extract_film_name ''Mercy_TLR-1-IMMINA_S_QFC-QFC-CCAP_CA_51_4K_MGM_20251001_DLX_SMPTE_OV''
     = ''Mercy''"
  by code_simp

text \<open>
  C6 as stated fails: for a descriptor that starts with a separator the source takes the
  (empty) first segment and falls back to the first word, where the statement takes the first
  non-empty segment; and the source trims the input before it looks for the first line.
\<close>

theorem extract_first_segment_counterexample:
  "extract_film_name ''_ab cd'' = ''Ab''
   \<and> extract_as_claimed ''_ab cd'' = ''Ab Cd''
   \<and> extract_film_name [CHR 0x0A, CHR ''A'', CHR ''b'', CHR ''c''] = ''Abc''
   \<and> extract_as_claimed [CHR 0x0A, CHR ''A'', CHR ''b'', CHR ''c''] = ''Film''"
  by code_simp

text \<open>
  C6, amended. Applied to the first line of the whitespace-trimmed input, the extractor returns
  the title-cased leading run of letters and digits when that run has at least three
  characters; otherwise the title-cased first segment before any underscore or hyphen when
  that segment has at least two characters (stripping the technical codes never changes
  it); otherwise the title-cased first word of the code-stripped remainder with its separators
  replaced by spaces, or \<open>Film\<close> when nothing remains. The sample descriptor gives \<open>Mercy\<close>.
\<close>

theorem extract_film_name_steps:
  "extract_film_name s =
     (let line = takeWhile (\<lambda>c. c \<noteq> CHR 0x0A) (py_strip s);
          run = takeWhile is_alnum line;
          segment = takeWhile (\<lambda>c. \<not> is_sep c) line;
          cleaned = seps_to_spaces (strip_codes line)
      in if 3 \<le> length run then py_title run
         else if 2 \<le> length segment then py_title segment
         else if cleaned = [] then ''Film''
         else py_title (takeWhile (\<lambda>c. \<not> is_space c) cleaned))
   \<and> extract_film_name ''Mercy_TLR-1-IMMINA_S_QFC-QFC-CCAP_CA_51_4K_MGM_20251001_DLX_SMPTE_OV''
       = ''Mercy''"
  using extract_film_name_unfolded [of s] mercy by simp

section \<open>The weekly schedule\<close>

lemma attempts_append: "attempts (xs @ ys) = attempts xs @ attempts ys"
  by (simp add: attempts_def)

lemma attempts_Cons:
  "attempts (e # es) = (if is_attempt e then e # attempts es else attempts es)"
  by (simp add: attempts_def)

lemma attempts_Nil: "attempts [] = []"
  by (simp add: attempts_def)

lemma attempts_matinees:
  "attempts (add_matinees (page\<lparr>add_seance_ok := f, copy_calendar := m\<rparr>) dd df h mi i hs)
     = attempts (add_matinees page dd df h mi i hs)"
  by (induction hs arbitrary: i)
     (auto simp: attempts_append attempts_Cons attempts_Nil split: option.splits bool.splits)

lemma schedule_independent:
  "attempts (snd (schedule_seances (page\<lparr>add_seance_ok := f, copy_calendar := m\<rparr>) minutes dd df))
     = attempts (snd (schedule_seances page minutes dd df))
   \<and> fst (schedule_seances (page\<lparr>add_seance_ok := f, copy_calendar := m\<rparr>) minutes dd df)
     = fst (schedule_seances page minutes dd df)"
proof (cases "scheduler_loads page")
  case False
  then show ?thesis by (simp add: schedule_seances_def)
next
  case loads: True
  show ?thesis
  proof (cases "parse_bound dd")
    case None
    then show ?thesis using loads by (simp add: schedule_seances_def)
  next
    case debut: (Some date_debut_dt)
    show ?thesis
    proof (cases "parse_bound df")
      case None
      then show ?thesis using loads debut by (simp add: schedule_seances_def)
    next
      case fin: (Some date_fin_dt)
      show ?thesis
      proof (cases "find_vendredi date_debut_dt 0 (headers_before page)")
        case None
        then show ?thesis using loads debut fin by (simp add: schedule_seances_def)
      next
        case vendredi: (Some vendredi_index)
        show ?thesis
        proof (cases "vendredi_index \<ge> views_before page")
          case True
          then show ?thesis
            using loads debut fin vendredi by (simp add: schedule_seances_def)
        next
          case False
          then show ?thesis
            using loads debut fin vendredi
            by (simp add: schedule_seances_def Let_def attempts_append attempts_Cons attempts_Nil
                attempts_matinees split: sum.splits)
        qed
      qed
    qed
  qed
qed

lemma workflow_result:
  "fst (full_workflow_usb c fn ft sn minutes dd df) =
     (browser_starts c \<and> login_ok c \<and> import_usb_opens c
      \<and> selection_ok (select_qfc_from_usb (usb c) fn)
      \<and> session_editor_opens c
      \<and> select_block_ok c
           (or_else (imported_film_format (select_qfc_from_usb (usb c) fn)) (or_else ft ''scope''))
      \<and> replace_film_ok c
           (if or_else (imported_film_text (select_qfc_from_usb (usb c) fn)) [] = [] then ''Film''
            else extract_film_name (or_else (imported_film_text (select_qfc_from_usb (usb c) fn)) []))
           (generate_block_name
              (if or_else (imported_film_text (select_qfc_from_usb (usb c) fn)) [] = [] then ''Film''
               else extract_film_name
                      (or_else (imported_film_text (select_qfc_from_usb (usb c) fn)) []))
              (or_else (imported_film_format (select_qfc_from_usb (usb c) fn)) (or_else ft ''scope''))
              (or_else sn ''Brunet'')))"
  unfolding full_workflow_usb_def Let_def by simp

lemma workflow_all_placements_fail:
  "full_workflow_usb (console_30_janvier False) None None None ''00''
     (Some ''30/01/2026'') (Some ''05/02/2026'')
   = (True,
      [AddSeance 0 18 ''50'', Logged ''SCH-004'', CopyDays 0 [31, 32, 35, 36], Logged ''SCH-005'',
       AddSeance 1 12 ''50'', Logged ''SCH-006'', AddSeance 2 12 ''50'', Logged ''SCH-006''])"
  by code_simp

text \<open>
  C8. A placement or the bulk copy that fails does not stop the schedule: what
  \<^verbatim>\<open>schedule_seances\<close> attempts, and what it returns, is the same whatever the outcomes of the
  placements and of the copy; the result of the whole run does not depend on the scheduler at
  all, only on the steps before it; so the run reports success even when every placement and
  the copy have failed, and all of them were still attempted.
\<close>

theorem placement_failures_not_fatal:
  "attempts (snd (schedule_seances (page\<lparr>add_seance_ok := f, copy_calendar := m\<rparr>) minutes dd df))
     = attempts (snd (schedule_seances page minutes dd df))
   \<and> fst (schedule_seances (page\<lparr>add_seance_ok := f, copy_calendar := m\<rparr>) minutes dd df)
     = fst (schedule_seances page minutes dd df)
   \<and> fst (full_workflow_usb (c\<lparr>scheduler := sp\<rparr>) fn ft sn minutes dd df)
     = fst (full_workflow_usb c fn ft sn minutes dd df)
   \<and> full_workflow_usb (console_30_janvier False) None None None ''00''
        (Some ''30/01/2026'') (Some ''05/02/2026'')
     = (True,
        [AddSeance 0 18 ''50'', Logged ''SCH-004'', CopyDays 0 [31, 32, 35, 36], Logged ''SCH-005'',
         AddSeance 1 12 ''50'', Logged ''SCH-006'', AddSeance 2 12 ''50'', Logged ''SCH-006''])"
  using schedule_independent workflow_all_placements_fail
  by (simp add: workflow_result)

text \<open>
  C1 at the anchor Friday 30 January 2026 with pattern \<open>00\<close>: one evening show is placed, on the
  anchor day; the bulk copy is asked for the day numbers 31, 32, 35 and 36, while the days
  one, two, five and six days after the anchor are the 31st, 1st, 4th and 5th; on the January
  page of the copy calendar only the 31st is selected. The two matinees are placed on the
  Saturday and the Sunday. Without date bounds the same page yields the targets 31, 1, 4, 5.
\<close>

theorem week_plan_month_end:
  "schedule_seances (page_30_janvier True) ''00'' (Some ''30/01/2026'') (Some ''05/02/2026'')
     = (True, [AddSeance 0 18 ''50'', CopyDays 0 [31, 32, 35, 36],
               AddSeance 1 12 ''50'', AddSeance 2 12 ''50''])
   \<and> map (\<lambda>k. day (add_days \<lparr>year = 2026, month = 1, day = 30\<rparr> k)) [1, 2, 5, 6] = [31, 1, 4, 5]
   \<and> copy_vendredi_to_days (copy_calendar (page_30_janvier True)) 0 [31, 32, 35, 36] = Inr [31]
   \<and> schedule_seances (page_30_janvier True) ''00'' None None
     = (True, [AddSeance 0 18 ''50'', CopyDays 0 [31, 1, 4, 5],
               AddSeance 1 12 ''50'', AddSeance 2 12 ''50''])"
proof -
  have bounded:
    "schedule_seances (page_30_janvier True) ''00'' (Some ''30/01/2026'') (Some ''05/02/2026'')
       = (True, [AddSeance 0 18 ''50'', CopyDays 0 [31, 32, 35, 36],
                 AddSeance 1 12 ''50'', AddSeance 2 12 ''50''])"
    by code_simp
  have step: "next_day \<lparr>year = y, month = m, day = d\<rparr> =
      (if d < days_in_month y m then \<lparr>year = y, month = m, day = d + 1\<rparr>
       else if m < 12 then \<lparr>year = y, month = m + 1, day = 1\<rparr>
       else \<lparr>year = y + 1, month = 1, day = 1\<rparr>)" for y m d
    by (simp add: next_day_def)
  have calendar:
    "map (\<lambda>k. day (add_days \<lparr>year = 2026, month = 1, day = 30\<rparr> k)) [1, 2, 5, 6] = [31, 1, 4, 5]"
    by (simp add: add_days_def eval_nat_numeral funpow_swap1 step days_in_month_def is_leap_def)
  have copied:
    "copy_vendredi_to_days (copy_calendar (page_30_janvier True)) 0 [31, 32, 35, 36] = Inr [31]"
    by code_simp
  have unbounded:
    "schedule_seances (page_30_janvier True) ''00'' None None
       = (True, [AddSeance 0 18 ''50'', CopyDays 0 [31, 1, 4, 5],
                 AddSeance 1 12 ''50'', AddSeance 2 12 ''50''])"
    by code_simp
  show ?thesis
    by (intro conjI bounded calendar copied unbounded)
qed

end
